theory Spec2Isabelle
  imports Complex_Main "HOL-Library.Word" "HOL-Library.Multiset"
begin

section \<open>The Cepton ROS driver nodelet and the SDK point utilities\<close>

text \<open>
  A shallow embedding of \<^verbatim>\<open>src/driver_nodelet.cpp\<close> (the callbacks of
  \<^verbatim>\<open>cepton_ros::DriverNodelet\<close>) and of the point utilities of
  \<^verbatim>\<open>cepton_sdk_util.hpp\<close>.

  Conventions of the embedding:
  \<^item> \<^verbatim>\<open>uint64_t\<close> and \<^verbatim>\<open>uint32_t\<close> are \<open>64 word\<close> and \<open>32 word\<close>;
    \<^verbatim>\<open>uint8_t\<close> is \<open>8 word\<close>. The C++ \<^verbatim>\<open>int\<close> of error codes and event kinds is
    \<open>int\<close>: the code only compares it with constants.
  \<^item> \<^verbatim>\<open>float\<close> is a type parameter \<open>'f\<close>. The nodelet only copies floats. The
    arithmetic of \<^verbatim>\<open>cepton_sdk_util.hpp\<close> takes the float operations as a record
    \<open>'f float_ops\<close>, so that the embedded functions perform the operations of the source
    in the order of the source, whatever the arithmetic. \<open>binary32_ops\<close> is the
    arithmetic of the implementation (IEEE 754 single precision); \<open>real_ops\<close> is exact
    real arithmetic, which the implementation approximates and which has neither
    rounding nor overflow.
  \<^item> A pointer that may be null is an \<open>option\<close>; dereferencing \<open>None\<close> is the fault
    \<open>NullDereference\<close>, and a function that may do so returns \<open>fault + state\<close>.
  \<^item> The member variables of the nodelet are the fields of the record
    \<open>DriverNodelet\<close>. What the nodelet does to ROS is recorded in two more fields:
    \<open>advertised\<close>, the topics advertised through \<^verbatim>\<open>node_handle\<close> in order, and
    \<open>effects\<close>, the messages published and the log calls made, in order.
\<close>

subsection \<open>Data of the SDK\<close>

type_synonym CeptonSensorHandle = "64 word"

text \<open>
  \<^verbatim>\<open>struct CeptonSensorInformation\<close>: the fields the nodelet reads. The character
  arrays are read as C strings.
\<close>

record CeptonSensorInformation =
  si_handle :: CeptonSensorHandle
  si_serial_number :: "64 word"
  si_model_name :: string
  si_firmware_version :: string

text \<open>\<^verbatim>\<open>struct CeptonSensorImagePoint\<close> of \<^verbatim>\<open>cepton_sdk.h\<close>.\<close>

record 'f CeptonSensorImagePoint =
  ip_timestamp :: "64 word"
  ip_image_x :: 'f
  ip_distance :: 'f
  ip_image_z :: 'f
  ip_intensity :: 'f
  ip_return_number :: "8 word"
  ip_valid :: "8 word"

text \<open>\<^verbatim>\<open>struct cepton_sdk::SensorPoint\<close> of \<^verbatim>\<open>cepton_sdk_util.hpp\<close>.\<close>

record 'f SensorPoint =
  up_timestamp :: "64 word"
  up_x :: 'f
  up_y :: 'f
  up_z :: 'f
  up_intensity :: 'f
  up_return_number :: "8 word"
  up_valid :: "8 word"

text \<open>
  \<^verbatim>\<open>struct CeptonSensorPoint\<close>, the element type of the batch that \<^verbatim>\<open>on_receive\<close> is
  given. Its declaration is not in the SDK header at hand; the record has the fields
  that \<^verbatim>\<open>on_receive\<close> reads.
\<close>

record 'f CeptonSensorPoint =
  sp_timestamp :: "64 word"
  sp_x :: 'f
  sp_y :: 'f
  sp_z :: 'f
  sp_intensity :: 'f

subsection \<open>Float operations\<close>

record 'f float_ops =
  fadd :: "'f \<Rightarrow> 'f \<Rightarrow> 'f"
  fmul :: "'f \<Rightarrow> 'f \<Rightarrow> 'f"
  fdiv :: "'f \<Rightarrow> 'f \<Rightarrow> 'f"
  fneg :: "'f \<Rightarrow> 'f"
  fsqrt :: "'f \<Rightarrow> 'f"
  fone :: 'f

text \<open>
  Exact arithmetic on the reals: the arithmetic in which the formulas of the
  specification are meant, not the arithmetic of the implementation.
\<close>

definition real_ops :: "real float_ops" where
  "real_ops = \<lparr>fadd = (+), fmul = (*), fdiv = (/), fneg = uminus, fsqrt = sqrt, fone = 1\<rparr>"



text \<open>
  Rounding of a magnitude to the binary32 grid: 24 significant bits, the exponent of
  the magnitude but at least \<open>-126\<close> (the subnormal numbers).
\<close>

definition round_to_even :: "real \<Rightarrow> int" where
  "round_to_even q =
     (let f = \<lfloor>q\<rfloor>
      in if q - of_int f < 1 / 2 then f
         else if 1 / 2 < q - of_int f then f + 1
         else if even f then f else f + 1)"

definition round_binary32 :: "real \<Rightarrow> real" where
  "round_binary32 m =
     (if m = 0 then 0
      else let e = max \<lfloor>log 2 \<bar>m\<bar>\<rfloor> (- 126);
               ulp = 2 powr (of_int e - 23)
           in of_int (round_to_even (m / ulp)) * ulp)"










subsection \<open>Points: \<^verbatim>\<open>cepton_sdk_util.hpp\<close>\<close>

text \<open>\<^verbatim>\<open>template <typename T> inline T square(T x) { return x * x; }\<close>\<close>

definition square :: "'f float_ops \<Rightarrow> 'f \<Rightarrow> 'f" where
  "square ops x = fmul ops x x"

text \<open>
  \<^verbatim>\<open>convert_image_point_to_point\<close>: the three reference parameters \<^verbatim>\<open>x\<close>, \<^verbatim>\<open>y\<close>,
  \<^verbatim>\<open>z\<close> are the result triple.
\<close>

definition convert_image_point_to_point ::
  "'f float_ops \<Rightarrow> 'f \<Rightarrow> 'f \<Rightarrow> 'f \<Rightarrow> 'f \<times> 'f \<times> 'f" where
  "convert_image_point_to_point ops image_x image_z distance =
     (let focal_length_squared = fone ops;
          hypotenuse_small =
            fsqrt ops (fadd ops (fadd ops (square ops image_x) (square ops image_z))
                         focal_length_squared);
          ratio = fdiv ops distance hypotenuse_small;
          x = fmul ops (fneg ops image_x) ratio;
          y = ratio;
          z = fmul ops (fneg ops image_z) ratio
      in (x, y, z))"

text \<open>
  The contract of \<open>imageToCartesian\<close> as the specification words it: \<open>h\<close>, then
  \<open>ratio\<close>, then the three coordinates.
\<close>

definition imageToCartesian_spec ::
  "'f float_ops \<Rightarrow> 'f \<Rightarrow> 'f \<Rightarrow> 'f \<Rightarrow> 'f \<times> 'f \<times> 'f" where
  "imageToCartesian_spec ops image_x image_z distance =
     (let h = fsqrt ops (fadd ops (fadd ops (fmul ops image_x image_x)
                                            (fmul ops image_z image_z)) (fone ops));
          ratio = fdiv ops distance h
      in (fmul ops (fneg ops image_x) ratio, ratio, fmul ops (fneg ops image_z) ratio))"

text \<open>
  \<^verbatim>\<open>convert_sensor_image_point_to_point\<close>: the reference parameter \<^verbatim>\<open>point\<close> is the
  result; every field of it is assigned.
\<close>

definition convert_sensor_image_point_to_point ::
  "'f float_ops \<Rightarrow> 'f CeptonSensorImagePoint \<Rightarrow> 'f SensorPoint" where
  "convert_sensor_image_point_to_point ops image_point =
     (case convert_image_point_to_point ops (ip_image_x image_point)
             (ip_image_z image_point) (ip_distance image_point) of
        (x, y, z) \<Rightarrow>
          \<lparr>up_timestamp = ip_timestamp image_point,
           up_x = x, up_y = y, up_z = z,
           up_intensity = ip_intensity image_point,
           up_return_number = ip_return_number image_point,
           up_valid = ip_valid image_point\<rparr>)"

subsection \<open>Data of the nodelet\<close>

text \<open>
  \<^verbatim>\<open>CeptonPoint\<close>, the point type of the published cloud (its header is not at hand):
  the fields that \<^verbatim>\<open>on_receive\<close> assigns, each with the type of the field it is
  assigned from.
\<close>

record 'f CeptonPoint =
  pt_timestamp :: "64 word"
  pt_x :: 'f
  pt_y :: 'f
  pt_z :: 'f
  pt_intensity :: 'f

text \<open>
  \<^verbatim>\<open>CeptonPointCloud\<close> is a \<^verbatim>\<open>pcl::PointCloud\<close> of \<^verbatim>\<open>CeptonPoint\<close>. The Point Cloud
  Library declares \<^verbatim>\<open>header.stamp\<close> as \<^verbatim>\<open>uint64_t\<close>, \<^verbatim>\<open>header.frame_id\<close> as a
  string, \<^verbatim>\<open>points\<close> as a vector, and \<^verbatim>\<open>width\<close> and \<^verbatim>\<open>height\<close> as \<^verbatim>\<open>uint32_t\<close>.
  The fields that the nodelet never touches are left out.
\<close>

record PCLHeader =
  stamp :: "64 word"
  frame_id :: string

record 'f CeptonPointCloud =
  header :: PCLHeader
  points :: "'f CeptonPoint list"
  width :: "32 word"
  height :: "32 word"

text \<open>\<^verbatim>\<open>new CeptonPointCloud()\<close>: an empty cloud, all counters zero.\<close>

definition new_CeptonPointCloud :: "'f CeptonPointCloud" where
  "new_CeptonPointCloud =
     \<lparr>header = \<lparr>stamp = 0, frame_id = []\<rparr>, points = [], width = 0, height = 0\<rparr>"

text \<open>The message \<^verbatim>\<open>cepton_ros::SensorInformation\<close>: the fields that are assigned.\<close>

record SensorInformation =
  msg_handle :: "64 word"
  msg_serial_number :: "64 word"
  msg_model_name :: string
  msg_firmware_version :: string

text \<open>
  A \<^verbatim>\<open>ros::Publisher\<close> is either default-constructed (\<open>NoTopic\<close>) or the result of
  an \<^verbatim>\<open>advertise\<close> call: then it carries the number of that call, which tells two
  publishers of one topic apart, the topic and the queue size.
\<close>

datatype Publisher =
    NoTopic
  | OnTopic (pub_id: nat) (pub_topic: string) (pub_queue_size: nat)

text \<open>
  What the nodelet does to the outside: log calls, kept with their format string and
  argument, and messages handed to a publisher.
\<close>

datatype 'f effect =
    Warn string int
  | Info string string
  | Fatal string int
  | PublishInformation Publisher SensorInformation
  | PublishPoints Publisher "'f CeptonPointCloud"

datatype fault = NullDereference | OutOfRange

record 'f DriverNodelet =
  combine_sensors :: bool
  output_namespace :: string
  sensor_information_publisher :: Publisher
  combined_points_publisher :: Publisher
  sensor_points_publishers :: "string \<rightharpoonup> Publisher"
  advertised :: "(string \<times> nat) list"
  effects :: "'f effect list"

text \<open>
  The constants \<^verbatim>\<open>CEPTON_EVENT_ATTACH\<close>, \<^verbatim>\<open>CEPTON_EVENT_DETACH\<close> and
  \<^verbatim>\<open>CEPTON_EVENT_FRAME\<close> are not declared in the SDK header at hand; their values are
  a parameter of \<^verbatim>\<open>on_event\<close>.
\<close>

record CeptonSensorEvent =
  CEPTON_EVENT_ATTACH :: int
  CEPTON_EVENT_DETACH :: int
  CEPTON_EVENT_FRAME :: int

subsection \<open>ROS and the C++ library\<close>

text \<open>
  \<^verbatim>\<open>node_handle.advertise(topic, queue_size)\<close> registers the topic and returns a new
  publisher.
\<close>

definition advertise ::
  "string \<Rightarrow> nat \<Rightarrow> 'f DriverNodelet \<Rightarrow> Publisher \<times> 'f DriverNodelet" where
  "advertise topic_id queue_size s =
     (OnTopic (length (advertised s)) topic_id queue_size,
      s\<lparr>advertised := advertised s @ [(topic_id, queue_size)]\<rparr>)"

definition emit :: "'f effect \<Rightarrow> 'f DriverNodelet \<Rightarrow> 'f DriverNodelet" where
  "emit e s = s\<lparr>effects := effects s @ [e]\<rparr>"

text \<open>
  \<^verbatim>\<open>std::to_string\<close> on an unsigned integer: its decimal digits, most significant
  first, no sign and no leading zero.
\<close>

definition digit_char :: "nat \<Rightarrow> char" where
  "digit_char d = char_of (48 + d)"

function to_string :: "nat \<Rightarrow> string" where
  "to_string n =
     (if n < 10 then [digit_char n] else to_string (n div 10) @ [digit_char (n mod 10)])"
  by pat_completeness auto
termination
  by (relation "measure (\<lambda>n. n)") auto

declare to_string.simps [simp del]




subsection \<open>The nodelet: \<^verbatim>\<open>driver_nodelet.cpp\<close>\<close>

definition get_sensor_name :: "CeptonSensorInformation \<Rightarrow> string" where
  "get_sensor_name sensor_information = to_string (unat (si_serial_number sensor_information))"

definition get_sensor_points_topic_id :: "'f DriverNodelet \<Rightarrow> string \<Rightarrow> string" where
  "get_sensor_points_topic_id s sensor_name =
     (if combine_sensors s then output_namespace s @ ''_points''
      else output_namespace s @ ''_points_'' @ sensor_name)"

definition get_sensor_frame_id :: "'f DriverNodelet \<Rightarrow> string \<Rightarrow> string" where
  "get_sensor_frame_id s sensor_name =
     (if combine_sensors s then output_namespace s
      else output_namespace s @ ''_'' @ sensor_name)"

text \<open>
  \<^verbatim>\<open>get_sensor_points_publisher\<close>. \<^verbatim>\<open>std::map::count\<close> is the test for the key,
  \<^verbatim>\<open>operator[]\<close> followed by the assignment stores the new publisher, and
  \<^verbatim>\<open>std::map::at\<close> throws \<^verbatim>\<open>std::out_of_range\<close> on a missing key.
\<close>

definition get_sensor_points_publisher ::
  "string \<Rightarrow> 'f DriverNodelet \<Rightarrow> fault + (Publisher \<times> 'f DriverNodelet)" where
  "get_sensor_points_publisher sensor_name s =
     (if combine_sensors s then Inr (combined_points_publisher s, s)
      else
        let s1 =
          (if sensor_points_publishers s sensor_name = None then
             (case advertise (get_sensor_points_topic_id s sensor_name) 10 s of
                (p, s') \<Rightarrow>
                  s'\<lparr>sensor_points_publishers := (sensor_points_publishers s')(sensor_name \<mapsto> p)\<rparr>)
           else s)
        in (case sensor_points_publishers s1 sensor_name of
              None \<Rightarrow> Inl OutOfRange
            | Some p \<Rightarrow> Inr (p, s1)))"

definition publish_sensor_information ::
  "CeptonSensorInformation \<Rightarrow> 'f DriverNodelet \<Rightarrow> 'f DriverNodelet" where
  "publish_sensor_information sensor_information s =
     (let msg = \<lparr>msg_handle = si_handle sensor_information,
                 msg_serial_number = si_serial_number sensor_information,
                 msg_model_name = si_model_name sensor_information,
                 msg_firmware_version = si_firmware_version sensor_information\<rparr>
      in emit (PublishInformation (sensor_information_publisher s) msg) s)"

text \<open>
  The first loop of \<^verbatim>\<open>on_receive\<close>, over \<^verbatim>\<open>points[0 .. n_points - 1]\<close>:
  \<^verbatim>\<open>message_timestamp = std::max(message_timestamp, points[i].timestamp)\<close>.
\<close>

fun message_timestamp_loop :: "'f CeptonSensorPoint list \<Rightarrow> 64 word \<Rightarrow> 64 word" where
  "message_timestamp_loop [] message_timestamp = message_timestamp"
| "message_timestamp_loop (p # ps) message_timestamp =
     message_timestamp_loop ps (max message_timestamp (sp_timestamp p))"

text \<open>The second loop: one \<^verbatim>\<open>push_back\<close> and one \<^verbatim>\<open>++width\<close> for each point.\<close>

fun push_back_loop ::
  "'f CeptonSensorPoint list \<Rightarrow> 'f CeptonPointCloud \<Rightarrow> 'f CeptonPointCloud" where
  "push_back_loop [] cloud = cloud"
| "push_back_loop (cepton_point # ps) cloud =
     (let pcl_point = \<lparr>pt_timestamp = sp_timestamp cepton_point,
                       pt_x = sp_x cepton_point,
                       pt_y = sp_y cepton_point,
                       pt_z = sp_z cepton_point,
                       pt_intensity = sp_intensity cepton_point\<rparr>
      in push_back_loop ps
           (cloud\<lparr>points := points cloud @ [pcl_point], width := width cloud + 1\<rparr>))"

text \<open>
  \<^verbatim>\<open>on_receive\<close>. The batch \<^verbatim>\<open>(n_points, points)\<close> is a list.
  \<^verbatim>\<open>cepton_sdk_get_sensor_information\<close> belongs to the SDK and is a parameter. The
  nodelet calls it with the handle alone and takes a pointer to the sensor's
  information from it (the header at hand declares a later form, with an output
  argument); a null pointer is \<open>None\<close>. The pointer is dereferenced unchecked.
\<close>

definition on_receive ::
  "(CeptonSensorHandle \<Rightarrow> CeptonSensorInformation option) \<Rightarrow> int \<Rightarrow> CeptonSensorHandle \<Rightarrow>
   'f CeptonSensorPoint list \<Rightarrow> 'f DriverNodelet \<Rightarrow> fault + 'f DriverNodelet" where
  "on_receive cepton_sdk_get_sensor_information error_code sensor_handle pts s0 =
     (let s1 = (if error_code < 0 then emit (Warn ''on_receive failed: %i'' error_code) s0
                else s0)
      in case cepton_sdk_get_sensor_information sensor_handle of
           None \<Rightarrow> Inl NullDereference
         | Some sensor_information \<Rightarrow>
             let sensor_name = get_sensor_name sensor_information;
                 s2 = publish_sensor_information sensor_information s1;
                 message_timestamp = message_timestamp_loop pts 0;
                 cloud0 = new_CeptonPointCloud
                   \<lparr>header := \<lparr>stamp = message_timestamp,
                               frame_id = get_sensor_frame_id s2 sensor_name\<rparr>,
                    height := 1\<rparr>;
                 cloud = push_back_loop pts cloud0
             in (case get_sensor_points_publisher sensor_name s2 of
                   Inl f \<Rightarrow> Inl f
                 | Inr (publisher, s3) \<Rightarrow> Inr (emit (PublishPoints publisher cloud) s3)))"

text \<open>
  \<^verbatim>\<open>on_event\<close>. The \<^verbatim>\<open>switch\<close> has no \<^verbatim>\<open>default\<close>: any other event kind falls
  through it.
\<close>

definition on_event ::
  "CeptonSensorEvent \<Rightarrow> int \<Rightarrow> CeptonSensorHandle \<Rightarrow> CeptonSensorInformation option \<Rightarrow> int \<Rightarrow>
   'f DriverNodelet \<Rightarrow> fault + 'f DriverNodelet" where
  "on_event ev error_code sensor_handle sensor_information_ptr sensor_event s =
     (if error_code < 0 then Inr (emit (Warn ''on_event failed: %i'' error_code) s)
      else case sensor_information_ptr of
             None \<Rightarrow> Inl NullDereference
           | Some sensor_information \<Rightarrow>
               let sensor_name = get_sensor_name sensor_information
               in if sensor_event = CEPTON_EVENT_ATTACH ev then
                    Inr (emit (Info ''sensor connected: %s'' sensor_name) s)
                  else if sensor_event = CEPTON_EVENT_DETACH ev then
                    Inr (emit (Info ''sensor disconnected: %s'' sensor_name) s)
                  else if sensor_event = CEPTON_EVENT_FRAME ev then Inr s
                  else Inr s)"

text \<open>
  \<^verbatim>\<open>onInit\<close>. The three parameters read from the parameter server, the result of
  \<^verbatim>\<open>driver.initialize\<close> and the results of the two capture replay calls are
  arguments. \<^verbatim>\<open>CEPTON_SUCCESS\<close> is 0.
\<close>

definition onInit ::
  "string \<Rightarrow> bool \<Rightarrow> string \<Rightarrow> bool \<Rightarrow> (string \<Rightarrow> int) \<Rightarrow> int \<Rightarrow> 'f DriverNodelet" where
  "onInit capture_path combine namespace driver_initialize
          cepton_sdk_capture_replay_open cepton_sdk_capture_replay_resume =
     (let s0 = \<lparr>combine_sensors = combine, output_namespace = namespace,
                sensor_information_publisher = NoTopic,
                combined_points_publisher = NoTopic,
                sensor_points_publishers = Map.empty,
                advertised = [], effects = []\<rparr>;
          sensor_information_topic_id = output_namespace s0 @ ''_sensor_information'';
          s1 = (case advertise sensor_information_topic_id 2 s0 of
                  (p, s) \<Rightarrow> s\<lparr>sensor_information_publisher := p\<rparr>);
          s2 = (if combine_sensors s1 then
                  (case advertise (get_sensor_points_topic_id s1 []) 2 s1 of
                     (p, s) \<Rightarrow> s\<lparr>combined_points_publisher := p\<rparr>)
                else s1)
      in if \<not> driver_initialize then s2
         else if capture_path \<noteq> [] then
           (let error_code = cepton_sdk_capture_replay_open capture_path
            in if error_code \<noteq> 0 then
                 emit (Fatal ''opening capture replay failed: %s!'' error_code) s2
               else
                 let error_code = cepton_sdk_capture_replay_resume
                 in if error_code \<noteq> 0 then
                      emit (Fatal ''resuming capture replay failed: %s!'' error_code) s2
                    else s2)
         else s2)"

text \<open>
  The two callbacks that \<^verbatim>\<open>onInit\<close> registers with the driver, and the driver
  delivering a sequence of them; a fault ends the run.
\<close>

datatype 'f callback =
    Receive int CeptonSensorHandle "'f CeptonSensorPoint list"
  | Event int CeptonSensorHandle "CeptonSensorInformation option" int

fun deliver ::
  "(CeptonSensorHandle \<Rightarrow> CeptonSensorInformation option) \<Rightarrow> CeptonSensorEvent \<Rightarrow>
   'f callback \<Rightarrow> 'f DriverNodelet \<Rightarrow> fault + 'f DriverNodelet" where
  "deliver sdk ev (Receive error_code sensor_handle pts) s =
     on_receive sdk error_code sensor_handle pts s"
| "deliver sdk ev (Event error_code sensor_handle sensor_information_ptr sensor_event) s =
     on_event ev error_code sensor_handle sensor_information_ptr sensor_event s"

fun run ::
  "(CeptonSensorHandle \<Rightarrow> CeptonSensorInformation option) \<Rightarrow> CeptonSensorEvent \<Rightarrow>
   'f callback list \<Rightarrow> 'f DriverNodelet \<Rightarrow> fault + 'f DriverNodelet" where
  "run sdk ev [] s = Inr s"
| "run sdk ev (c # cs) s =
     (case deliver sdk ev c s of Inl f \<Rightarrow> Inl f | Inr s' \<Rightarrow> run sdk ev cs s')"

subsection \<open>What the callbacks build, in closed form\<close>

text \<open>
  The point that the second loop of \<^verbatim>\<open>on_receive\<close> pushes, the message that
  \<^verbatim>\<open>publish_sensor_information\<close> fills in, the warning of \<^verbatim>\<open>on_receive\<close> and the
  cloud it hands to the publisher. The lemmas below prove that the embedded
  functions build exactly these.
\<close>

definition pcl_point_of :: "'f CeptonSensorPoint \<Rightarrow> 'f CeptonPoint" where
  "pcl_point_of cepton_point =
     \<lparr>pt_timestamp = sp_timestamp cepton_point, pt_x = sp_x cepton_point,
      pt_y = sp_y cepton_point, pt_z = sp_z cepton_point,
      pt_intensity = sp_intensity cepton_point\<rparr>"

definition sensor_information_msg :: "CeptonSensorInformation \<Rightarrow> SensorInformation" where
  "sensor_information_msg i =
     \<lparr>msg_handle = si_handle i, msg_serial_number = si_serial_number i,
      msg_model_name = si_model_name i, msg_firmware_version = si_firmware_version i\<rparr>"

definition warned :: "int \<Rightarrow> 'f effect list" where
  "warned error_code =
     (if error_code < 0 then [Warn ''on_receive failed: %i'' error_code] else [])"

definition frame_of ::
  "'f DriverNodelet \<Rightarrow> string \<Rightarrow> 'f CeptonSensorPoint list \<Rightarrow> 'f CeptonPointCloud" where
  "frame_of s name pts =
     \<lparr>header = \<lparr>stamp = message_timestamp_loop pts 0,
                 frame_id = get_sensor_frame_id s name\<rparr>,
      points = map pcl_point_of pts, width = of_nat (length pts), height = 1\<rparr>"

subsection \<open>Predicates for the statements\<close>

text \<open>
  A log call, as opposed to a published message.
\<close>

definition is_log :: "'f effect \<Rightarrow> bool" where
  "is_log e = (case e of Warn _ _ \<Rightarrow> True | Info _ _ \<Rightarrow> True | Fatal _ _ \<Rightarrow> True
               | PublishInformation _ _ \<Rightarrow> False | PublishPoints _ _ \<Rightarrow> False)"

text \<open>
  The driver can deliver a callback without a fault: \<^verbatim>\<open>on_receive\<close> needs a handle
  that the SDK knows, \<^verbatim>\<open>on_event\<close> a sensor information unless the error code is
  negative.
\<close>

fun callback_defined ::
  "(CeptonSensorHandle \<Rightarrow> CeptonSensorInformation option) \<Rightarrow> 'f callback \<Rightarrow> bool" where
  "callback_defined sdk (Receive error_code sensor_handle pts) = (sdk sensor_handle \<noteq> None)"
| "callback_defined sdk (Event error_code sensor_handle sensor_information_ptr sensor_event) =
     (error_code < 0 \<or> sensor_information_ptr \<noteq> None)"

text \<open>
  \<open>grown_by s ks s'\<close>: from \<open>s\<close> to \<open>s'\<close> the map of publishers has gained exactly
  the keys \<open>ks\<close>, each once, with one advertisement for each in that order; no entry
  of \<open>s\<close> was removed or replaced, and the configuration and the other publishers are
  the same.
\<close>

definition grown_by :: "'f DriverNodelet \<Rightarrow> string list \<Rightarrow> 'f DriverNodelet \<Rightarrow> bool" where
  "grown_by s ks s' =
     (distinct ks \<and> set ks \<inter> dom (sensor_points_publishers s) = {} \<and>
      dom (sensor_points_publishers s') = dom (sensor_points_publishers s) \<union> set ks \<and>
      (\<forall>k \<in> dom (sensor_points_publishers s).
         sensor_points_publishers s' k = sensor_points_publishers s k) \<and>
      advertised s' = advertised s @ map (\<lambda>k. (get_sensor_points_topic_id s k, 10)) ks \<and>
      combine_sensors s' = combine_sensors s \<and>
      output_namespace s' = output_namespace s \<and>
      combined_points_publisher s' = combined_points_publisher s \<and>
      sensor_information_publisher s' = sensor_information_publisher s)"


subsection \<open>Example inputs\<close>

text \<open>
  Two sensors with the serial numbers 1001 and 1002 under the handles 1 and 2, an SDK
  that knows these two handles only, a nodelet initialised with the namespace
  \<open>cepton\<close> and no capture file, and points over the reals.
\<close>

definition sensor_1001 :: CeptonSensorInformation where
  "sensor_1001 = \<lparr>si_handle = 1, si_serial_number = 1001,
                   si_model_name = ''HR80W'', si_firmware_version = ''V1''\<rparr>"

definition sensor_1002 :: CeptonSensorInformation where
  "sensor_1002 = \<lparr>si_handle = 2, si_serial_number = 1002,
                   si_model_name = ''HR80W'', si_firmware_version = ''V1''\<rparr>"

definition example_sdk :: "CeptonSensorHandle \<Rightarrow> CeptonSensorInformation option" where
  "example_sdk h = (if h = 1 then Some sensor_1001 else if h = 2 then Some sensor_1002 else None)"

definition example_events :: CeptonSensorEvent where
  "example_events = \<lparr>CEPTON_EVENT_ATTACH = 1, CEPTON_EVENT_DETACH = 2, CEPTON_EVENT_FRAME = 3\<rparr>"

definition example_nodelet :: "bool \<Rightarrow> real DriverNodelet" where
  "example_nodelet combine = onInit [] combine ''cepton'' True (\<lambda>_. 0) 0"

definition example_point :: "64 word \<Rightarrow> real CeptonSensorPoint" where
  "example_point t = \<lparr>sp_timestamp = t, sp_x = 1, sp_y = 0, sp_z = 0, sp_intensity = 1 / 2\<rparr>"

section \<open>Lemmas\<close>

subsection \<open>The loops and the lookup\<close>

lemma Max_insert_max:
  fixes t :: "'a::linorder"
  assumes "finite S"
  shows "Max (insert (max t x) S) = max t (Max (insert x S))"
proof (cases "S = {}")
  case True
  then show ?thesis by simp
next
  case False
  with assms show ?thesis by (simp add: max.assoc)
qed

lemma message_timestamp_loop_Max:
  "message_timestamp_loop pts t = Max (insert t (sp_timestamp ` set pts))"
proof (induction pts arbitrary: t)
  case Nil
  show ?case by simp
next
  case (Cons p ps)
  have "message_timestamp_loop (p # ps) t =
        Max (insert (max t (sp_timestamp p)) (sp_timestamp ` set ps))"
    by (simp add: Cons.IH)
  also have "\<dots> = max t (Max (insert (sp_timestamp p) (sp_timestamp ` set ps)))"
    by (rule Max_insert_max) simp
  also have "\<dots> = Max (insert t (sp_timestamp ` set (p # ps)))"
    by simp
  finally show ?case .
qed

lemma push_back_loop_eq:
  "push_back_loop pts cloud =
     cloud\<lparr>points := points cloud @ map pcl_point_of pts,
           width := width cloud + of_nat (length pts)\<rparr>"
  by (induction pts arbitrary: cloud) (simp_all add: pcl_point_of_def Let_def add.assoc add.commute)

lemma get_sensor_points_publisher_eq:
  "get_sensor_points_publisher sensor_name s =
     Inr (if combine_sensors s then (combined_points_publisher s, s)
          else case sensor_points_publishers s sensor_name of
                 Some p \<Rightarrow> (p, s)
               | None \<Rightarrow>
                   (OnTopic (length (advertised s)) (get_sensor_points_topic_id s sensor_name) 10,
                    s\<lparr>advertised := advertised s @ [(get_sensor_points_topic_id s sensor_name, 10)],
                      sensor_points_publishers :=
                        (sensor_points_publishers s)(sensor_name \<mapsto>
                           OnTopic (length (advertised s))
                             (get_sensor_points_topic_id s sensor_name) 10)\<rparr>))"
  by (simp add: get_sensor_points_publisher_def advertise_def Let_def split: option.splits)

lemma on_receive_closed:
  "on_receive sdk ec h pts s =
    (case sdk h of
       None \<Rightarrow> Inl NullDereference
     | Some info \<Rightarrow>
         Inr (let name = get_sensor_name info;
                  cloud = frame_of s name pts;
                  pre = effects s @ warned ec @
                        [PublishInformation (sensor_information_publisher s)
                           (sensor_information_msg info)]
              in if combine_sensors s then
                   s\<lparr>effects := pre @ [PublishPoints (combined_points_publisher s) cloud]\<rparr>
                 else case sensor_points_publishers s name of
                        Some p \<Rightarrow> s\<lparr>effects := pre @ [PublishPoints p cloud]\<rparr>
                      | None \<Rightarrow>
                          s\<lparr>advertised :=
                              advertised s @ [(get_sensor_points_topic_id s name, 10)],
                            sensor_points_publishers :=
                              (sensor_points_publishers s)(name \<mapsto>
                                 OnTopic (length (advertised s))
                                   (get_sensor_points_topic_id s name) 10),
                            effects := pre @ [PublishPoints
                              (OnTopic (length (advertised s))
                                 (get_sensor_points_topic_id s name) 10) cloud]\<rparr>))"
  by (simp add: on_receive_def get_sensor_points_publisher_eq push_back_loop_eq
        publish_sensor_information_def emit_def new_CeptonPointCloud_def frame_of_def
        sensor_information_msg_def warned_def get_sensor_frame_id_def
        get_sensor_points_topic_id_def Let_def split: option.splits)

lemma on_receive_published:
  assumes "sdk h = Some info"
  shows "\<exists>s' pub. on_receive sdk ec h pts s = Inr s' \<and>
           effects s' = effects s @ warned ec @
             [PublishInformation (sensor_information_publisher s) (sensor_information_msg info),
              PublishPoints pub (frame_of s (get_sensor_name info) pts)]"
  using assms by (simp add: on_receive_closed Let_def split: option.splits)

lemma on_receive_error_code:
  "on_receive sdk ec h pts s =
     on_receive sdk 0 h pts (if ec < 0 then emit (Warn ''on_receive failed: %i'' ec) s else s)"
  by (simp add: on_receive_def)

lemma stamp_frame_of:
  "stamp (header (frame_of s name pts)) =
     (if pts = [] then 0 else Max (sp_timestamp ` set pts))"
proof (cases "pts = []")
  case True
  then show ?thesis by (simp add: frame_of_def)
next
  case False
  then have "Max (insert 0 (sp_timestamp ` set pts)) = max 0 (Max (sp_timestamp ` set pts))"
    by simp
  then show ?thesis using False by (simp add: frame_of_def message_timestamp_loop_Max max_def)
qed

lemma stamp_frame_of_mset:
  assumes "mset pts' = mset pts"
  shows "stamp (header (frame_of s name pts')) = stamp (header (frame_of s name pts))"
proof -
  from assms have "set pts' = set pts" by (rule mset_eq_setD)
  then show ?thesis by (simp add: frame_of_def message_timestamp_loop_Max)
qed

lemma on_receive_width_wraps:
  assumes "sdk h = Some info" and "length pts = 2 ^ 32"
  shows "\<exists>s' pub cloud.
           on_receive sdk ec h pts s = Inr s' \<and> last (effects s') = PublishPoints pub cloud \<and>
           length (points cloud) = 2 ^ 32 \<and> width cloud = 0 \<and>
           unat (width cloud) \<noteq> length (points cloud)"
  using on_receive_published [where sdk = sdk and h = h and ec = ec and pts = pts and s = s,
          OF assms(1)] assms(2)
  by (fastforce simp add: frame_of_def)

lemma no_conversion_yields_unit_x:
  "\<not> (\<exists>image_x image_z distance.
        convert_image_point_to_point real_ops image_x image_z distance = (1, 0, 0))"
  by (auto simp add: convert_image_point_to_point_def real_ops_def square_def Let_def)

lemma on_receive_state:
  assumes "sdk h = Some info"
  shows "\<exists>pub. on_receive sdk ec h pts s =
           Inr (s\<lparr>advertised :=
                    (if combine_sensors s \<or> sensor_points_publishers s (get_sensor_name info) \<noteq> None
                     then advertised s
                     else advertised s @
                            [(get_sensor_points_topic_id s (get_sensor_name info), 10)]),
                  sensor_points_publishers :=
                    (if combine_sensors s \<or> sensor_points_publishers s (get_sensor_name info) \<noteq> None
                     then sensor_points_publishers s
                     else (sensor_points_publishers s)(get_sensor_name info \<mapsto> pub)),
                  effects := effects s @ warned ec @
                    [PublishInformation (sensor_information_publisher s)
                       (sensor_information_msg info),
                     PublishPoints pub (frame_of s (get_sensor_name info) pts)]\<rparr>) \<and>
           pub = (if combine_sensors s then combined_points_publisher s
                  else case sensor_points_publishers s (get_sensor_name info) of
                         Some p \<Rightarrow> p
                       | None \<Rightarrow>
                           OnTopic (length (advertised s))
                             (get_sensor_points_topic_id s (get_sensor_name info)) 10)"
proof (cases "combine_sensors s")
  case True
  with assms show ?thesis by (simp add: on_receive_closed Let_def)
next
  case False
  show ?thesis
  proof (cases "sensor_points_publishers s (get_sensor_name info)")
    case None
    with False assms show ?thesis by (simp add: on_receive_closed Let_def)
  next
    case (Some p)
    with False assms show ?thesis by (simp add: on_receive_closed Let_def)
  qed
qed

lemma frame_of_eq:
  "frame_of s name pts =
     \<lparr>header = \<lparr>stamp = (if pts = [] then 0 else Max (sp_timestamp ` set pts)),
                 frame_id = get_sensor_frame_id s name\<rparr>,
      points = map (\<lambda>p. \<lparr>pt_timestamp = sp_timestamp p, pt_x = sp_x p, pt_y = sp_y p,
                           pt_z = sp_z p, pt_intensity = sp_intensity p\<rparr>) pts,
      width = of_nat (length pts), height = 1\<rparr>"
proof -
  have "message_timestamp_loop pts 0 = (if pts = [] then 0 else Max (sp_timestamp ` set pts))"
    using stamp_frame_of [of s name pts] by (simp add: frame_of_def)
  moreover have "map pcl_point_of pts =
      map (\<lambda>p. \<lparr>pt_timestamp = sp_timestamp p, pt_x = sp_x p, pt_y = sp_y p,
                  pt_z = sp_z p, pt_intensity = sp_intensity p\<rparr>) pts"
    by (simp add: pcl_point_of_def)
  ultimately show ?thesis by (simp only: frame_of_def)
qed

subsection \<open>Binary32 arithmetic\<close>






lemma round_to_even_of_int: "round_to_even (of_int n) = n"
  by (simp add: round_to_even_def)

lemma round_binary32_power_of_two:
  fixes k :: int
  assumes "- 126 \<le> k"
  shows "round_binary32 (2 powr of_int k) = 2 powr of_int k"
proof -
  let ?m = "2 powr (of_int k :: real) :: real"
  have pos: "0 < ?m" by simp
  have e: "max \<lfloor>log 2 \<bar>?m\<bar>\<rfloor> (- 126) = k"
    using assms by simp
  have q: "?m / 2 powr (of_int k - 23) = of_int (2 ^ 23)"
  proof -
    have "?m / 2 powr (of_int k - 23) = 2 powr (of_int k - (of_int k - 23))"
      by (simp only: powr_diff [symmetric])
    also have "\<dots> = 2 powr (23 :: real)" by simp
    also have "\<dots> = of_int (2 ^ 23)" by (simp add: powr_numeral)
    finally show ?thesis .
  qed
  have "round_binary32 ?m = of_int (round_to_even (?m / 2 powr (of_int k - 23))) * 2 powr (of_int k - 23)"
    using pos e by (simp add: round_binary32_def Let_def)
  also have "\<dots> = of_int (2 ^ 23) * 2 powr (of_int k - 23)"
    by (simp only: q round_to_even_of_int)
  also have "\<dots> = 2 powr 23 * 2 powr (of_int k - 23)"
    by (simp add: powr_numeral)
  also have "\<dots> = ?m"
    by (simp only: powr_add [symmetric]) simp
  finally show ?thesis .
qed

lemma round_binary32_one: "round_binary32 1 = 1"
  using round_binary32_power_of_two [of 0] by simp

lemma round_binary32_2_70: "round_binary32 (2 ^ 70) = 2 ^ 70"
  using round_binary32_power_of_two [of 70] by (simp add: powr_numeral)

subsection \<open>Decimal strings\<close>











subsection \<open>The publishers over a run of callbacks\<close>

lemma grown_by_refl: "grown_by s [] s"
  by (simp add: grown_by_def)

lemma grown_by_effects: "grown_by s [] (s\<lparr>effects := es\<rparr>)"
  by (simp add: grown_by_def)

lemma topic_id_cong:
  "combine_sensors s' = combine_sensors s \<Longrightarrow> output_namespace s' = output_namespace s \<Longrightarrow>
   get_sensor_points_topic_id s' = get_sensor_points_topic_id s"
  by (rule ext) (simp add: get_sensor_points_topic_id_def)

lemma grown_by_trans:
  assumes "grown_by s ks s'" and "grown_by s' ks' s''"
  shows "grown_by s (ks @ ks') s''"
proof -
  let ?r = "sensor_points_publishers s" and ?r' = "sensor_points_publishers s'"
    and ?r'' = "sensor_points_publishers s''"
  from assms(1) have a: "distinct ks" "set ks \<inter> dom ?r = {}" "dom ?r' = dom ?r \<union> set ks"
    "\<forall>k \<in> dom ?r. ?r' k = ?r k"
    "advertised s' = advertised s @ map (\<lambda>k. (get_sensor_points_topic_id s k, 10)) ks"
    "combine_sensors s' = combine_sensors s" "output_namespace s' = output_namespace s"
    "combined_points_publisher s' = combined_points_publisher s"
    "sensor_information_publisher s' = sensor_information_publisher s"
    unfolding grown_by_def by blast+
  from assms(2) have b: "distinct ks'" "set ks' \<inter> dom ?r' = {}" "dom ?r'' = dom ?r' \<union> set ks'"
    "\<forall>k \<in> dom ?r'. ?r'' k = ?r' k"
    "advertised s'' = advertised s' @ map (\<lambda>k. (get_sensor_points_topic_id s' k, 10)) ks'"
    "combine_sensors s'' = combine_sensors s'" "output_namespace s'' = output_namespace s'"
    "combined_points_publisher s'' = combined_points_publisher s'"
    "sensor_information_publisher s'' = sensor_information_publisher s'"
    unfolding grown_by_def by blast+
  have topic: "get_sensor_points_topic_id s' = get_sensor_points_topic_id s"
    using a(6,7) by (rule topic_id_cong)
  have 1: "distinct (ks @ ks')"
    using a(1,3) b(1,2) by auto
  have 2: "set (ks @ ks') \<inter> dom ?r = {}"
    using a(2,3) b(2) by auto
  have 3: "dom ?r'' = dom ?r \<union> set (ks @ ks')"
    using a(3) b(3) by auto
  have 4: "\<forall>k \<in> dom ?r. ?r'' k = ?r k"
  proof
    fix k assume k: "k \<in> dom ?r"
    with a(3) have "k \<in> dom ?r'" by simp
    with b(4) have "?r'' k = ?r' k" by (rule bspec)
    also from a(4) k have "?r' k = ?r k" by (rule bspec)
    finally show "?r'' k = ?r k" .
  qed
  have 5: "advertised s'' =
             advertised s @ map (\<lambda>k. (get_sensor_points_topic_id s k, 10)) (ks @ ks')"
    using a(5) b(5) topic by simp
  show ?thesis
    unfolding grown_by_def
    using 1 2 3 4 5 a(6-9) b(6-9) by (intro conjI) simp_all
qed

lemma grown_by_created:
  assumes "sensor_points_publishers s k = None"
  shows "grown_by s [k]
           (s\<lparr>advertised := advertised s @ [(get_sensor_points_topic_id s k, 10)],
              sensor_points_publishers := (sensor_points_publishers s)(k \<mapsto> p),
              effects := es\<rparr>)"
  using assms by (auto simp add: grown_by_def)

lemma on_receive_grown:
  assumes "on_receive sdk ec h pts s = Inr s'"
  shows "\<exists>ks. grown_by s ks s'"
proof (cases "sdk h")
  case None
  with assms show ?thesis by (simp add: on_receive_closed)
next
  case (Some info)
  let ?name = "get_sensor_name info"
  let ?pre = "effects s @ warned ec @
    [PublishInformation (sensor_information_publisher s) (sensor_information_msg info)]"
  show ?thesis
  proof (cases "combine_sensors s")
    case True
    with Some assms have "s' = s\<lparr>effects := ?pre @
        [PublishPoints (combined_points_publisher s) (frame_of s ?name pts)]\<rparr>"
      by (simp add: on_receive_closed Let_def)
    then have "grown_by s [] s'" by (simp only: grown_by_effects)
    then show ?thesis ..
  next
    case False
    show ?thesis
    proof (cases "sensor_points_publishers s ?name")
      case (Some p)
      with \<open>sdk h = Some info\<close> False assms
      have "s' = s\<lparr>effects := ?pre @ [PublishPoints p (frame_of s ?name pts)]\<rparr>"
        by (simp add: on_receive_closed Let_def)
      then have "grown_by s [] s'" by (simp only: grown_by_effects)
      then show ?thesis ..
    next
      case None
      let ?p = "OnTopic (length (advertised s)) (get_sensor_points_topic_id s ?name) 10"
      from None \<open>sdk h = Some info\<close> False assms
      have "s' = s\<lparr>advertised := advertised s @ [(get_sensor_points_topic_id s ?name, 10)],
                 sensor_points_publishers := (sensor_points_publishers s)(?name \<mapsto> ?p),
                 effects := ?pre @ [PublishPoints ?p (frame_of s ?name pts)]\<rparr>"
        by (simp add: on_receive_closed Let_def)
      with None have "grown_by s [?name] s'"
        by (simp only: grown_by_created)
      then show ?thesis ..
    qed
  qed
qed

lemma on_event_closed:
  assumes "error_code < 0 \<or> sensor_information_ptr \<noteq> None"
  shows "\<exists>logs. on_event ev error_code sensor_handle sensor_information_ptr sensor_event s =
                  Inr (s\<lparr>effects := effects s @ logs\<rparr>) \<and>
           list_all is_log logs \<and>
           (error_code < 0 \<longrightarrow> logs = [Warn ''on_event failed: %i'' error_code]) \<and>
           (0 \<le> error_code \<and> sensor_event \<noteq> CEPTON_EVENT_ATTACH ev \<and>
              sensor_event \<noteq> CEPTON_EVENT_DETACH ev \<longrightarrow> logs = [])"
proof (cases "error_code < 0")
  case True
  then show ?thesis by (simp add: on_event_def emit_def is_log_def)
next
  case False
  with assms obtain info where "sensor_information_ptr = Some info" by auto
  with False show ?thesis
    by (auto simp add: on_event_def emit_def is_log_def Let_def)
qed

lemma on_event_grown:
  assumes "on_event ev ec h ptr e s = Inr s'"
  shows "grown_by s [] s'"
proof -
  from assms have "ec < 0 \<or> ptr \<noteq> None"
    by (auto simp add: on_event_def split: if_splits option.splits)
  from on_event_closed [OF this, of ev h e s] assms show ?thesis
    by (auto simp add: grown_by_effects grown_by_refl)
qed

lemma deliver_grown:
  assumes "deliver sdk ev c s = Inr s'"
  shows "\<exists>ks. grown_by s ks s'"
proof (cases c)
  case (Receive ec h pts)
  with assms show ?thesis by (simp add: on_receive_grown)
next
  case (Event ec h ptr e)
  with assms have "grown_by s [] s'" by (simp add: on_event_grown)
  then show ?thesis ..
qed

lemma run_grown:
  assumes "run sdk ev cs s = Inr s'"
  shows "\<exists>ks. grown_by s ks s'"
  using assms
proof (induction cs arbitrary: s)
  case Nil
  then have "grown_by s [] s'" by (simp add: grown_by_refl)
  then show ?case ..
next
  case (Cons c cs)
  from Cons.prems obtain s1 where step: "deliver sdk ev c s = Inr s1"
    and rest: "run sdk ev cs s1 = Inr s'"
    by (auto split: sum.splits)
  from deliver_grown [OF step] obtain ks where "grown_by s ks s1" ..
  moreover from Cons.IH [OF rest] obtain ks' where "grown_by s1 ks' s'" ..
  ultimately have "grown_by s (ks @ ks') s'" by (rule grown_by_trans)
  then show ?case ..
qed

lemma lookup_idem:
  assumes "get_sensor_points_publisher k s = Inr (p, s1)"
  shows "get_sensor_points_publisher k s1 = Inr (p, s1)"
  using assms
  by (auto simp add: get_sensor_points_publisher_eq split: if_splits option.splits)

lemma lookup_stable:
  assumes "get_sensor_points_publisher k s1 = Inr (p, s1)" and "grown_by s1 ks s2"
  shows "get_sensor_points_publisher k s2 = Inr (p, s2)"
proof (cases "combine_sensors s1")
  case True
  with assms(1) have "p = combined_points_publisher s1"
    by (simp add: get_sensor_points_publisher_eq)
  with True assms(2) show ?thesis
    by (simp add: get_sensor_points_publisher_eq grown_by_def)
next
  case False
  have present: "sensor_points_publishers s1 k = Some p"
  proof (cases "sensor_points_publishers s1 k")
    case None
    with False assms(1) have "advertised s1 = advertised s1 @ [(get_sensor_points_topic_id s1 k, 10)]"
      by (auto simp add: get_sensor_points_publisher_eq dest: arg_cong [where f = advertised])
    then show ?thesis by simp
  next
    case (Some q)
    with False assms(1) show ?thesis by (simp add: get_sensor_points_publisher_eq)
  qed
  then have "k \<in> dom (sensor_points_publishers s1)" by blast
  with assms(2) have "sensor_points_publishers s2 k = sensor_points_publishers s1 k"
    unfolding grown_by_def by blast
  moreover from assms(2) False have "\<not> combine_sensors s2"
    by (simp add: grown_by_def)
  ultimately show ?thesis using present
    by (simp add: get_sensor_points_publisher_eq)
qed

lemma grown_by_kept:
  assumes "grown_by s1 ks s2" and "sensor_points_publishers s1 k = Some p"
  shows "sensor_points_publishers s2 k = Some p"
proof -
  from assms(2) have "k \<in> dom (sensor_points_publishers s1)" by blast
  with assms(1) have "sensor_points_publishers s2 k = sensor_points_publishers s1 k"
    unfolding grown_by_def by blast
  with assms(2) show ?thesis by simp
qed

lemma grown_by_account:
  assumes "grown_by s1 ks s2"
  shows "distinct ks \<and>
         set ks = dom (sensor_points_publishers s2) - dom (sensor_points_publishers s1) \<and>
         advertised s2 = advertised s1 @ map (\<lambda>k. (get_sensor_points_topic_id s1 k, 10)) ks"
proof -
  from assms have "distinct ks" "set ks \<inter> dom (sensor_points_publishers s1) = {}"
    "dom (sensor_points_publishers s2) = dom (sensor_points_publishers s1) \<union> set ks"
    "advertised s2 = advertised s1 @ map (\<lambda>k. (get_sensor_points_topic_id s1 k, 10)) ks"
    unfolding grown_by_def by blast+
  then show ?thesis by auto
qed

lemma deliver_total:
  assumes "callback_defined sdk c"
  shows "\<exists>s'. deliver sdk ev c s = Inr s'"
proof (cases c)
  case (Receive ec h pts)
  with assms show ?thesis by (auto simp add: on_receive_closed)
next
  case (Event ec h ptr e)
  with assms have "ec < 0 \<or> ptr \<noteq> None" by simp
  from on_event_closed [OF this, of ev h e s] Event show ?thesis by auto
qed

lemma run_total:
  assumes "list_all (callback_defined sdk) cs"
  shows "\<exists>s'. run sdk ev cs s = Inr s'"
  using assms
proof (induction cs arbitrary: s)
  case Nil
  show ?case by simp
next
  case (Cons c cs)
  then have "callback_defined sdk c" and rest: "list_all (callback_defined sdk) cs"
    by simp_all
  then obtain s1 where "deliver sdk ev c s = Inr s1"
    using deliver_total by blast
  moreover from Cons.IH [OF rest] obtain s' where "run sdk ev cs s1 = Inr s'" ..
  ultimately show ?case by simp
qed








subsection \<open>Facts about the example inputs\<close>

lemma example_sdk_1: "example_sdk 1 = Some sensor_1001"
  by (simp add: example_sdk_def)

lemma example_sdk_3: "example_sdk 3 = None"
  by (simp add: example_sdk_def)


lemma get_sensor_name_1001: "get_sensor_name sensor_1001 = ''1001''"
  unfolding get_sensor_name_def sensor_1001_def by simp code_simp

section \<open>The claims\<close>

subsection \<open>Frame assembly in \<^verbatim>\<open>on_receive\<close>\<close>

text \<open>
  C1. For every batch that \<^verbatim>\<open>on_receive\<close> is given together with a handle the SDK
  knows, the call returns and the last thing it does is to publish a cloud. The stamp
  of that cloud is the greatest timestamp of the batch, and 0 when the batch is empty
  (the cloud then has no point); a batch with the same points in another order gives
  the same stamp.
\<close>

theorem on_receive_frame_timestamp:
  assumes "sdk h = Some info" and "mset pts' = mset pts"
  shows "\<exists>s1 pub cloud s2 pub' cloud'.
           on_receive sdk ec h pts s = Inr s1 \<and> last (effects s1) = PublishPoints pub cloud \<and>
           on_receive sdk ec h pts' s = Inr s2 \<and> last (effects s2) = PublishPoints pub' cloud' \<and>
           stamp (header cloud) = (if pts = [] then 0 else Max (sp_timestamp ` set pts)) \<and>
           stamp (header cloud') = stamp (header cloud) \<and>
           length (points cloud) = length pts"
proof -
  obtain s1 pub where 1: "on_receive sdk ec h pts s = Inr s1"
    "last (effects s1) = PublishPoints pub (frame_of s (get_sensor_name info) pts)"
    using on_receive_published [where sdk = sdk and h = h and pts = pts and s = s and ec = ec,
            OF assms(1)]
    by auto
  obtain s2 pub' where 2: "on_receive sdk ec h pts' s = Inr s2"
    "last (effects s2) = PublishPoints pub' (frame_of s (get_sensor_name info) pts')"
    using on_receive_published [where sdk = sdk and h = h and pts = pts' and s = s and ec = ec,
            OF assms(1)]
    by auto
  have "length (points (frame_of s (get_sensor_name info) pts)) = length pts"
    by (simp add: frame_of_def)
  with 1 2 stamp_frame_of [of s "get_sensor_name info" pts]
    stamp_frame_of_mset [OF assms(2), of s "get_sensor_name info"]
  show ?thesis by blast
qed

text \<open>
  The theorem at the batch with the timestamps 100 and 200, against the batch in the
  opposite order, and at the empty batch.
\<close>

theorem on_receive_frame_timestamp_witness:
  "(\<exists>s1 pub cloud s2 pub' cloud'.
      on_receive example_sdk 0 1 [example_point 100, example_point 200] (example_nodelet False)
        = Inr s1 \<and>
      last (effects s1) = PublishPoints pub cloud \<and>
      on_receive example_sdk 0 1 [example_point 200, example_point 100] (example_nodelet False)
        = Inr s2 \<and>
      last (effects s2) = PublishPoints pub' cloud' \<and>
      stamp (header cloud) = 200 \<and> stamp (header cloud') = 200 \<and>
      length (points cloud) = 2) \<and>
   (\<exists>s1 pub cloud.
      on_receive example_sdk 0 1 [] (example_nodelet False) = Inr s1 \<and>
      last (effects s1) = PublishPoints pub cloud \<and>
      stamp (header cloud) = 0 \<and> points cloud = [])"
proof -
  have reordered: "mset [example_point 200, example_point 100] =
                   mset [example_point 100, example_point 200]"
    by simp
  have two: "\<exists>s1 pub cloud s2 pub' cloud'.
      on_receive example_sdk 0 1 [example_point 100, example_point 200] (example_nodelet False)
        = Inr s1 \<and>
      last (effects s1) = PublishPoints pub cloud \<and>
      on_receive example_sdk 0 1 [example_point 200, example_point 100] (example_nodelet False)
        = Inr s2 \<and>
      last (effects s2) = PublishPoints pub' cloud' \<and>
      stamp (header cloud) = 200 \<and> stamp (header cloud') = 200 \<and>
      length (points cloud) = 2"
    using on_receive_frame_timestamp
            [where sdk = example_sdk and h = 1 and ec = 0 and s = "example_nodelet False",
             OF example_sdk_1 reordered]
    by (fastforce simp add: example_point_def)
  have same: "mset ([] :: real CeptonSensorPoint list) = mset []"
    by simp
  have none: "\<exists>s1 pub cloud.
      on_receive example_sdk 0 1 [] (example_nodelet False) = Inr s1 \<and>
      last (effects s1) = PublishPoints pub cloud \<and>
      stamp (header cloud) = 0 \<and> points cloud = []"
    using on_receive_frame_timestamp
            [where sdk = example_sdk and h = 1 and ec = 0 and s = "example_nodelet False",
             OF example_sdk_1 same]
    by auto
  from two none show ?thesis by (rule conjI)
qed

text \<open>
  C2, as the specification words it, says that frame assembly produces every output
  point by the image-to-Cartesian conversion. \<^verbatim>\<open>on_receive\<close> does not: given the
  point \<open>(1, 0, 0)\<close> it publishes the point \<open>(1, 0, 0)\<close>, which no conversion of
  any image point yields (a conversion with \<open>y = 0\<close> has \<open>ratio = 0\<close>, hence
  \<open>x = 0\<close>).
\<close>

theorem frame_assembly_conversion_counterexample:
  "(\<exists>s' pub cloud.
      on_receive example_sdk 0 1 [example_point 100] (example_nodelet False) = Inr s' \<and>
      last (effects s') = PublishPoints pub cloud \<and>
      points cloud = [\<lparr>pt_timestamp = 100, pt_x = 1, pt_y = 0, pt_z = 0, pt_intensity = 1 / 2\<rparr>]) \<and>
   \<not> (\<exists>image_x image_z distance.
        convert_image_point_to_point real_ops image_x image_z distance = (1, 0, 0))"
proof -
  from on_receive_published [where sdk = example_sdk and h = 1, OF example_sdk_1]
  have "\<exists>s' pub cloud.
      on_receive example_sdk 0 1 [example_point 100] (example_nodelet False) = Inr s' \<and>
      last (effects s') = PublishPoints pub cloud \<and>
      points cloud = [\<lparr>pt_timestamp = 100, pt_x = 1, pt_y = 0, pt_z = 0, pt_intensity = 1 / 2\<rparr>]"
    by (fastforce simp add: frame_of_def pcl_point_of_def example_point_def)
  then show ?thesis using no_conversion_yields_unit_x by (rule conjI)
qed

text \<open>
  C2, amended. For every point of a batch, \<^verbatim>\<open>on_receive\<close> copies the timestamp, the
  coordinates \<open>x\<close>, \<open>y\<close>, \<open>z\<close> and the intensity unchanged into the published
  cloud, in the order of the batch; it applies no conversion and no transform, and the
  published point has no return index and no validity flag. The conversion is what
  \<^verbatim>\<open>convert_sensor_image_point_to_point\<close> does to one image point: its coordinates
  are those of \<^verbatim>\<open>convert_image_point_to_point\<close>, and the timestamp, the intensity,
  the return index and the validity flag are copied unchanged.
\<close>

theorem on_receive_copies_points:
  assumes "sdk h = Some info"
  shows "(\<exists>s' pub cloud.
           on_receive sdk ec h pts s = Inr s' \<and> last (effects s') = PublishPoints pub cloud \<and>
           map pt_timestamp (points cloud) = map sp_timestamp pts \<and>
           map pt_x (points cloud) = map sp_x pts \<and>
           map pt_y (points cloud) = map sp_y pts \<and>
           map pt_z (points cloud) = map sp_z pts \<and>
           map pt_intensity (points cloud) = map sp_intensity pts) \<and>
         (up_x (convert_sensor_image_point_to_point ops image_point),
          up_y (convert_sensor_image_point_to_point ops image_point),
          up_z (convert_sensor_image_point_to_point ops image_point)) =
           convert_image_point_to_point ops (ip_image_x image_point) (ip_image_z image_point)
             (ip_distance image_point) \<and>
         up_timestamp (convert_sensor_image_point_to_point ops image_point) =
           ip_timestamp image_point \<and>
         up_intensity (convert_sensor_image_point_to_point ops image_point) =
           ip_intensity image_point \<and>
         up_return_number (convert_sensor_image_point_to_point ops image_point) =
           ip_return_number image_point \<and>
         up_valid (convert_sensor_image_point_to_point ops image_point) = ip_valid image_point"
proof -
  have "\<exists>s' pub cloud.
           on_receive sdk ec h pts s = Inr s' \<and> last (effects s') = PublishPoints pub cloud \<and>
           map pt_timestamp (points cloud) = map sp_timestamp pts \<and>
           map pt_x (points cloud) = map sp_x pts \<and>
           map pt_y (points cloud) = map sp_y pts \<and>
           map pt_z (points cloud) = map sp_z pts \<and>
           map pt_intensity (points cloud) = map sp_intensity pts"
    using on_receive_published [where sdk = sdk and h = h and ec = ec and pts = pts and s = s,
            OF assms]
    by (fastforce simp add: frame_of_def pcl_point_of_def comp_def)
  then show ?thesis
    by (simp add: convert_sensor_image_point_to_point_def split: prod.splits)
qed

theorem on_receive_copies_points_witness:
  "\<exists>s' pub cloud.
     on_receive example_sdk 0 1 [example_point 100, example_point 200] (example_nodelet False)
       = Inr s' \<and>
     last (effects s') = PublishPoints pub cloud \<and>
     map pt_timestamp (points cloud) = [100, 200] \<and>
     map pt_x (points cloud) = [1, 1] \<and> map pt_y (points cloud) = [0, 0] \<and>
     map pt_z (points cloud) = [0, 0] \<and> map pt_intensity (points cloud) = [1 / 2, 1 / 2]"
  using on_receive_copies_points
          [where sdk = example_sdk and h = 1 and ec = 0 and s = "example_nodelet False"
             and pts = "[example_point 100, example_point 200]", OF example_sdk_1]
  by (fastforce simp add: example_point_def)

subsection \<open>The conversion\<close>

text \<open>
  C3. For every input triple \<open>(image_x, image_z, distance)\<close>, the conversion computes
  \<open>h = sqrt (image_x\<^sup>2 + image_z\<^sup>2 + 1)\<close> (focal length 1) and
  \<open>ratio = distance / h\<close>, and returns \<open>x = - image_x * ratio\<close>, \<open>y = ratio\<close>,
  \<open>z = - image_z * ratio\<close>: the function of the source is the function of the
  specification, for every float arithmetic.
\<close>

theorem convert_image_point_to_point_spec:
  "convert_image_point_to_point ops image_x image_z distance =
     imageToCartesian_spec ops image_x image_z distance"
  by (simp add: convert_image_point_to_point_def imageToCartesian_spec_def square_def Let_def)

subsection \<open>Processing in \<^verbatim>\<open>on_receive\<close>\<close>

text \<open>
  C4. Every call of \<^verbatim>\<open>on_receive\<close> with a handle the SDK knows, whatever the
  error code, publishes the sensor information and then the cloud of the batch. A
  negative error code adds one warning in front and changes nothing else: the call
  behaves as the call with error code 0 after the warning. The cloud is the assembled
  frame: its stamp is the greatest timestamp of the batch, its frame identifier that of
  the sensor, its points the points of the batch in order, its width their number and
  its height 1. The publisher is the one the nodelet keeps for the sensor (the
  combined one, or the one stored under the sensor name, or one advertised now under
  the topic of the sensor and stored). Nothing else of the state changes.
\<close>

theorem on_receive_full_processing:
  assumes "sdk h = Some info"
  shows "\<exists>s' pub cloud.
           on_receive sdk ec h pts s = Inr s' \<and>
           effects s' = effects s @
             (if ec < 0 then [Warn ''on_receive failed: %i'' ec] else []) @
             [PublishInformation (sensor_information_publisher s)
                \<lparr>msg_handle = si_handle info, msg_serial_number = si_serial_number info,
                 msg_model_name = si_model_name info,
                 msg_firmware_version = si_firmware_version info\<rparr>,
              PublishPoints pub cloud] \<and>
           length (points cloud) = length pts \<and>
           on_receive sdk ec h pts s =
             on_receive sdk 0 h pts
               (if ec < 0 then emit (Warn ''on_receive failed: %i'' ec) s else s) \<and>
           pub = (if combine_sensors s then combined_points_publisher s
                  else case sensor_points_publishers s (get_sensor_name info) of
                         Some p \<Rightarrow> p
                       | None \<Rightarrow>
                           OnTopic (length (advertised s))
                             (get_sensor_points_topic_id s (get_sensor_name info)) 10) \<and>
           cloud =
             \<lparr>header = \<lparr>stamp = (if pts = [] then 0 else Max (sp_timestamp ` set pts)),
                         frame_id = get_sensor_frame_id s (get_sensor_name info)\<rparr>,
              points = map (\<lambda>p. \<lparr>pt_timestamp = sp_timestamp p, pt_x = sp_x p,
                                   pt_y = sp_y p, pt_z = sp_z p,
                                   pt_intensity = sp_intensity p\<rparr>) pts,
              width = of_nat (length pts), height = 1\<rparr> \<and>
           s' = s\<lparr>advertised :=
                    (if combine_sensors s \<or> sensor_points_publishers s (get_sensor_name info) \<noteq> None
                     then advertised s
                     else advertised s @
                            [(get_sensor_points_topic_id s (get_sensor_name info), 10)]),
                  sensor_points_publishers :=
                    (if combine_sensors s \<or> sensor_points_publishers s (get_sensor_name info) \<noteq> None
                     then sensor_points_publishers s
                     else (sensor_points_publishers s)(get_sensor_name info \<mapsto> pub)),
                  effects := effects s'\<rparr>"
proof -
  let ?cloud = "frame_of s (get_sensor_name info) pts"
  from on_receive_state [where sdk = sdk and h = h and ec = ec and pts = pts and s = s, OF assms]
  obtain pub where
    ret: "on_receive sdk ec h pts s =
           Inr (s\<lparr>advertised :=
                    (if combine_sensors s \<or> sensor_points_publishers s (get_sensor_name info) \<noteq> None
                     then advertised s
                     else advertised s @
                            [(get_sensor_points_topic_id s (get_sensor_name info), 10)]),
                  sensor_points_publishers :=
                    (if combine_sensors s \<or> sensor_points_publishers s (get_sensor_name info) \<noteq> None
                     then sensor_points_publishers s
                     else (sensor_points_publishers s)(get_sensor_name info \<mapsto> pub)),
                  effects := effects s @ warned ec @
                    [PublishInformation (sensor_information_publisher s)
                       (sensor_information_msg info),
                     PublishPoints pub ?cloud]\<rparr>)"
    and pub: "pub = (if combine_sensors s then combined_points_publisher s
                  else case sensor_points_publishers s (get_sensor_name info) of
                         Some p \<Rightarrow> p
                       | None \<Rightarrow>
                           OnTopic (length (advertised s))
                             (get_sensor_points_topic_id s (get_sensor_name info)) 10)"
    by blast
  let ?s' = "s\<lparr>advertised :=
                    (if combine_sensors s \<or> sensor_points_publishers s (get_sensor_name info) \<noteq> None
                     then advertised s
                     else advertised s @
                            [(get_sensor_points_topic_id s (get_sensor_name info), 10)]),
                  sensor_points_publishers :=
                    (if combine_sensors s \<or> sensor_points_publishers s (get_sensor_name info) \<noteq> None
                     then sensor_points_publishers s
                     else (sensor_points_publishers s)(get_sensor_name info \<mapsto> pub)),
                  effects := effects s @ warned ec @
                    [PublishInformation (sensor_information_publisher s)
                       (sensor_information_msg info),
                     PublishPoints pub ?cloud]\<rparr>"
  have 1: "effects ?s' = effects s @
             (if ec < 0 then [Warn ''on_receive failed: %i'' ec] else []) @
             [PublishInformation (sensor_information_publisher s)
                \<lparr>msg_handle = si_handle info, msg_serial_number = si_serial_number info,
                 msg_model_name = si_model_name info,
                 msg_firmware_version = si_firmware_version info\<rparr>,
              PublishPoints pub ?cloud]"
    by (simp add: warned_def sensor_information_msg_def)
  have 2: "length (points ?cloud) = length pts"
    by (simp add: frame_of_def)
  note 3 = on_receive_error_code [of sdk ec h pts s]
  note 4 = frame_of_eq [of s "get_sensor_name info" pts]
  have 5: "?s' = s\<lparr>advertised :=
                    (if combine_sensors s \<or> sensor_points_publishers s (get_sensor_name info) \<noteq> None
                     then advertised s
                     else advertised s @
                            [(get_sensor_points_topic_id s (get_sensor_name info), 10)]),
                  sensor_points_publishers :=
                    (if combine_sensors s \<or> sensor_points_publishers s (get_sensor_name info) \<noteq> None
                     then sensor_points_publishers s
                     else (sensor_points_publishers s)(get_sensor_name info \<mapsto> pub)),
                  effects := effects ?s'\<rparr>"
    by simp
  from ret 1 2 3 pub 4 5 show ?thesis by blast
qed

theorem on_receive_full_processing_witness:
  "\<exists>s'.
     on_receive example_sdk (- 1) 1 [example_point 100] (example_nodelet False) = Inr s' \<and>
     effects s' =
       [Warn ''on_receive failed: %i'' (- 1),
        PublishInformation (OnTopic 0 ''cepton_sensor_information'' 2)
          \<lparr>msg_handle = 1, msg_serial_number = 1001, msg_model_name = ''HR80W'',
           msg_firmware_version = ''V1''\<rparr>,
        PublishPoints (OnTopic 1 ''cepton_points_1001'' 10)
          \<lparr>header = \<lparr>stamp = 100, frame_id = ''cepton_1001''\<rparr>,
           points = [\<lparr>pt_timestamp = 100, pt_x = 1, pt_y = 0, pt_z = 0, pt_intensity = 1 / 2\<rparr>],
           width = 1, height = 1\<rparr>] \<and>
     advertised s' = [(''cepton_sensor_information'', 2), (''cepton_points_1001'', 10)]"
  using on_receive_full_processing
          [where sdk = example_sdk and h = 1 and ec = "- 1" and s = "example_nodelet False"
             and pts = "[example_point 100]", OF example_sdk_1]
  by (auto simp add: example_nodelet_def onInit_def advertise_def sensor_1001_def Let_def
        get_sensor_name_1001 [unfolded sensor_1001_def] example_point_def
        get_sensor_frame_id_def get_sensor_points_topic_id_def)

subsection \<open>Channels\<close>

text \<open>
  C5. After a lookup of a key has returned a publisher, whatever callbacks the driver
  delivers afterwards, a lookup of the same key returns the same publisher and changes
  nothing: no second channel is created. Over those callbacks no entry of the map is
  removed or replaced, and the map gains exactly the keys for which a channel was
  advertised, each once. The lookup itself changes the map and advertises a topic only
  when the nodelet keeps one channel for each sensor and the key is new.
\<close>

theorem channel_created_once:
  assumes first: "get_sensor_points_publisher k s = Inr (p, s1)"
    and later: "run sdk ev cbs s1 = Inr s2"
  shows "get_sensor_points_publisher k s2 = Inr (p, s2) \<and>
         (\<forall>k' p'. sensor_points_publishers s1 k' = Some p' \<longrightarrow>
                  sensor_points_publishers s2 k' = Some p') \<and>
         (\<exists>ks. distinct ks \<and>
               set ks = dom (sensor_points_publishers s2) - dom (sensor_points_publishers s1) \<and>
               advertised s2 =
                 advertised s1 @ map (\<lambda>k'. (get_sensor_points_topic_id s1 k', 10)) ks) \<and>
         sensor_points_publishers s1 =
           (if combine_sensors s \<or> sensor_points_publishers s k \<noteq> None
            then sensor_points_publishers s else (sensor_points_publishers s)(k \<mapsto> p)) \<and>
         advertised s1 =
           (if combine_sensors s \<or> sensor_points_publishers s k \<noteq> None
            then advertised s else advertised s @ [(get_sensor_points_topic_id s k, 10)])"
proof -
  from run_grown [OF later] obtain ks where g: "grown_by s1 ks s2" ..
  from first have "get_sensor_points_publisher k s1 = Inr (p, s1)" by (rule lookup_idem)
  then have 1: "get_sensor_points_publisher k s2 = Inr (p, s2)" using g by (rule lookup_stable)
  have 2: "\<forall>k' p'. sensor_points_publishers s1 k' = Some p' \<longrightarrow>
                  sensor_points_publishers s2 k' = Some p'"
    using grown_by_kept [OF g] by blast
  have 3: "\<exists>ks. distinct ks \<and>
               set ks = dom (sensor_points_publishers s2) - dom (sensor_points_publishers s1) \<and>
               advertised s2 =
                 advertised s1 @ map (\<lambda>k'. (get_sensor_points_topic_id s1 k', 10)) ks"
    using grown_by_account [OF g] by blast
  have 4: "sensor_points_publishers s1 =
           (if combine_sensors s \<or> sensor_points_publishers s k \<noteq> None
            then sensor_points_publishers s else (sensor_points_publishers s)(k \<mapsto> p))"
    using first by (auto simp add: get_sensor_points_publisher_eq split: if_splits option.splits)
  have 5: "advertised s1 =
           (if combine_sensors s \<or> sensor_points_publishers s k \<noteq> None
            then advertised s else advertised s @ [(get_sensor_points_topic_id s k, 10)])"
    using first by (auto simp add: get_sensor_points_publisher_eq split: if_splits option.splits)
  from 1 2 3 4 5 show ?thesis by (intro conjI)
qed

theorem channel_created_once_witness:
  "\<exists>s1 s2.
     get_sensor_points_publisher ''1001'' (example_nodelet False) =
       Inr (OnTopic 1 ''cepton_points_1001'' 10, s1) \<and>
     run example_sdk example_events
       [Receive 0 1 [example_point 100], Event 0 1 (Some sensor_1001) 2,
        Receive 0 2 [example_point 200], Receive (- 1) 1 [example_point 300]] s1 = Inr s2 \<and>
     get_sensor_points_publisher ''1001'' s2 = Inr (OnTopic 1 ''cepton_points_1001'' 10, s2)"
proof -
  let ?cbs = "[Receive 0 1 [example_point 100], Event 0 1 (Some sensor_1001) 2,
        Receive 0 2 [example_point 200], Receive (- 1) 1 [example_point 300]]"
  have "\<exists>s1. get_sensor_points_publisher ''1001'' (example_nodelet False) =
       Inr (OnTopic 1 ''cepton_points_1001'' 10, s1)"
    by (simp add: get_sensor_points_publisher_eq example_nodelet_def onInit_def advertise_def
          Let_def get_sensor_points_topic_id_def)
  then obtain s1 where first: "get_sensor_points_publisher ''1001'' (example_nodelet False) =
       Inr (OnTopic 1 ''cepton_points_1001'' 10, s1)" ..
  have "list_all (callback_defined example_sdk) ?cbs"
    by (simp add: example_sdk_def)
  from run_total [OF this, of example_events s1]
  obtain s2 where later: "run example_sdk example_events ?cbs s1 = Inr s2" ..
  from channel_created_once [OF first later]
  have "get_sensor_points_publisher ''1001'' s2 = Inr (OnTopic 1 ''cepton_points_1001'' 10, s2)"
    by (rule conjunct1)
  with first later show ?thesis by blast
qed



subsection \<open>The distance of the converted point\<close>




subsection \<open>Events\<close>

text \<open>
  C8. Every call of \<^verbatim>\<open>on_event\<close> that has a sensor information or a negative error
  code returns, and the state it returns differs from the state before in log calls
  only: no publisher is created or dropped, nothing is advertised and nothing is
  published. With a negative error code the only effect is the warning, whatever the
  other arguments; with an error code \<open>\<ge> 0\<close>, a frame event and an event kind
  that is none of the three constants have no effect at all. (The three constants are
  case labels of one \<^verbatim>\<open>switch\<close>, hence different.)
\<close>

theorem on_event_keeps_state:
  assumes "error_code < 0 \<or> sensor_information_ptr \<noteq> None"
    and "CEPTON_EVENT_FRAME ev \<noteq> CEPTON_EVENT_ATTACH ev"
    and "CEPTON_EVENT_FRAME ev \<noteq> CEPTON_EVENT_DETACH ev"
  shows "\<exists>logs. on_event ev error_code sensor_handle sensor_information_ptr sensor_event s =
                  Inr (s\<lparr>effects := effects s @ logs\<rparr>) \<and>
           list_all is_log logs \<and>
           (error_code < 0 \<longrightarrow> logs = [Warn ''on_event failed: %i'' error_code]) \<and>
           (0 \<le> error_code \<and> sensor_event = CEPTON_EVENT_FRAME ev \<longrightarrow> logs = []) \<and>
           (0 \<le> error_code \<and> sensor_event \<noteq> CEPTON_EVENT_ATTACH ev \<and>
              sensor_event \<noteq> CEPTON_EVENT_DETACH ev \<and>
              sensor_event \<noteq> CEPTON_EVENT_FRAME ev \<longrightarrow> logs = [])"
proof -
  from on_event_closed [OF assms(1), of ev sensor_handle sensor_event s]
  obtain logs where returned:
      "on_event ev error_code sensor_handle sensor_information_ptr sensor_event s =
         Inr (s\<lparr>effects := effects s @ logs\<rparr>)"
    and logs: "list_all is_log logs"
    and failed: "error_code < 0 \<longrightarrow> logs = [Warn ''on_event failed: %i'' error_code]"
    and silent: "0 \<le> error_code \<and> sensor_event \<noteq> CEPTON_EVENT_ATTACH ev \<and>
                 sensor_event \<noteq> CEPTON_EVENT_DETACH ev \<longrightarrow> logs = []"
    by blast
  from silent assms(2,3)
  have frame: "0 \<le> error_code \<and> sensor_event = CEPTON_EVENT_FRAME ev \<longrightarrow> logs = []"
    by simp
  from silent
  have other: "0 \<le> error_code \<and> sensor_event \<noteq> CEPTON_EVENT_ATTACH ev \<and>
                sensor_event \<noteq> CEPTON_EVENT_DETACH ev \<and>
                sensor_event \<noteq> CEPTON_EVENT_FRAME ev \<longrightarrow> logs = []"
    by simp
  from returned logs failed frame other show ?thesis by blast
qed

text \<open>
  The theorem at a failed notification without sensor information, at a frame event
  and at the event kind 99.
\<close>

theorem on_event_keeps_state_witness:
  "on_event example_events (- 1) 1 None 1 (example_nodelet False) =
     Inr (emit (Warn ''on_event failed: %i'' (- 1)) (example_nodelet False)) \<and>
   on_event example_events 0 1 (Some sensor_1001) 3 (example_nodelet False) =
     Inr (example_nodelet False) \<and>
   on_event example_events 0 1 (Some sensor_1001) 99 (example_nodelet False) =
     Inr (example_nodelet False)"
proof -
  have d1: "CEPTON_EVENT_FRAME example_events \<noteq> CEPTON_EVENT_ATTACH example_events"
    and d2: "CEPTON_EVENT_FRAME example_events \<noteq> CEPTON_EVENT_DETACH example_events"
    by (simp_all add: example_events_def)
  have failed: "(- 1 :: int) < 0 \<or> (None :: CeptonSensorInformation option) \<noteq> None"
    by simp
  have given: "(0 :: int) < 0 \<or> Some sensor_1001 \<noteq> None"
    by simp
  have 1: "on_event example_events (- 1) 1 None 1 (example_nodelet False) =
     Inr (emit (Warn ''on_event failed: %i'' (- 1)) (example_nodelet False))"
    using on_event_keeps_state [OF failed d1 d2, of 1 1 "example_nodelet False"]
    by (auto simp add: emit_def)
  have 2: "on_event example_events 0 1 (Some sensor_1001) 3 (example_nodelet False) =
     Inr (example_nodelet False)"
    using on_event_keeps_state [OF given d1 d2, of 1 3 "example_nodelet False"]
    by (auto simp add: example_events_def)
  have 3: "on_event example_events 0 1 (Some sensor_1001) 99 (example_nodelet False) =
     Inr (example_nodelet False)"
    using on_event_keeps_state [OF given d1 d2, of 1 99 "example_nodelet False"]
    by (auto simp add: example_events_def)
  from 1 2 3 show ?thesis by (intro conjI)
qed

subsection \<open>The unchecked pointer and the shape of the cloud\<close>

text \<open>
  C9. \<^verbatim>\<open>on_receive\<close> dereferences the pointer that the SDK returns without a test:
  the call faults exactly when the SDK returns null for the handle, and it returns
  exactly when the SDK returns a snapshot.
\<close>

theorem on_receive_null_snapshot:
  "(on_receive sdk ec h pts s = Inl NullDereference) = (sdk h = None) \<and>
   (\<exists>s'. on_receive sdk ec h pts s = Inr s') = (sdk h \<noteq> None)"
  by (cases "sdk h") (simp_all add: on_receive_closed)

text \<open>
  The theorem at the handle 3, which the example SDK does not know, and at the
  handle 1, which it knows.
\<close>

theorem on_receive_null_snapshot_witness:
  "on_receive example_sdk 0 3 [example_point 100] (example_nodelet False) = Inl NullDereference \<and>
   (\<exists>s'. on_receive example_sdk 0 1 [example_point 100] (example_nodelet False) = Inr s')"
  using on_receive_null_snapshot
          [of example_sdk 0 3 "[example_point 100]" "example_nodelet False"]
        on_receive_null_snapshot
          [of example_sdk 0 1 "[example_point 100]" "example_nodelet False"]
  by (simp add: example_sdk_1 example_sdk_3)

text \<open>
  C10, as stated, says that the width of every published cloud is its number of
  points. The width is a 32-bit counter that \<^verbatim>\<open>on_receive\<close> increments once for each
  point: for a batch of \<open>2\<^sup>3\<^sup>2\<close> points it is back at 0.
\<close>

theorem on_receive_width_counterexample:
  "\<exists>s' pub cloud.
     on_receive example_sdk 0 1 (replicate (2 ^ 32) (example_point 100)) (example_nodelet False)
       = Inr s' \<and>
     last (effects s') = PublishPoints pub cloud \<and>
     length (points cloud) = 2 ^ 32 \<and> width cloud = 0 \<and>
     unat (width cloud) \<noteq> length (points cloud)"
proof (rule on_receive_width_wraps [where sdk = example_sdk and h = 1 and info = sensor_1001])
  show "example_sdk 1 = Some sensor_1001"
    by (simp add: example_sdk_def)
  show "length (replicate (2 ^ 32) (example_point 100)) = 2 ^ 32"
    by (rule length_replicate)
qed

text \<open>
  C10, amended. Every cloud that \<^verbatim>\<open>on_receive\<close> publishes has height 1 and as many
  points as the batch; its width is that number modulo \<open>2\<^sup>3\<^sup>2\<close>, hence the number
  of its points for every batch of fewer than \<open>2\<^sup>3\<^sup>2\<close> points.
\<close>

theorem on_receive_cloud_shape:
  assumes "sdk h = Some info"
  shows "\<exists>s' pub cloud.
           on_receive sdk ec h pts s = Inr s' \<and> last (effects s') = PublishPoints pub cloud \<and>
           height cloud = 1 \<and> length (points cloud) = length pts \<and>
           unat (width cloud) = length pts mod 2 ^ 32 \<and>
           (length pts < 2 ^ 32 \<longrightarrow> unat (width cloud) = length (points cloud))"
  using on_receive_published [where sdk = sdk and h = h and ec = ec and pts = pts and s = s,
          OF assms(1)]
  by (fastforce simp add: frame_of_def unat_of_nat)

theorem on_receive_cloud_shape_witness:
  "\<exists>s' pub cloud.
     on_receive example_sdk 0 1 [example_point 100, example_point 200] (example_nodelet False)
       = Inr s' \<and>
     last (effects s') = PublishPoints pub cloud \<and>
     height cloud = 1 \<and> unat (width cloud) = 2 \<and> length (points cloud) = 2"
  using on_receive_cloud_shape
         [where sdk = example_sdk and h = 1 and ec = 0 and s = "example_nodelet False"
            and pts = "[example_point 100, example_point 200]", OF example_sdk_1]
  by fastforce

end
